theory Spec2Isabelle
  imports Complex_Main
begin

section \<open>Numeric conventions\<close>

text \<open>
  The kernel of the repository is \<open>core/camera_model.py\<close> and
  \<open>core/georeferencing_engine.py\<close>. Both compute on numpy \<open>float64\<close> values; the
  embedding computes on \<^typ>\<open>real\<close>, so every statement below is exact real arithmetic
  and says nothing about rounding. A value that numpy reports as NaN is an absent value
  (\<open>None\<close>) here; an exception raised by Python or by a library is a value of
  \<open>py_error\<close>, returned as \<open>Inl\<close>.
\<close>

datatype py_error = ValueError | IndexError | OverflowError | TransformNotInvertibleError

type_synonym vec3 = "real \<times> real \<times> real"

definition vx :: "vec3 \<Rightarrow> real" where
  "vx p = fst p"

definition vy :: "vec3 \<Rightarrow> real" where
  "vy p = fst (snd p)"

definition vz :: "vec3 \<Rightarrow> real" where
  "vz p = snd (snd p)"

definition vadd :: "vec3 \<Rightarrow> vec3 \<Rightarrow> vec3" where
  "vadd p q = (vx p + vx q, vy p + vy q, vz p + vz q)"

definition vsub :: "vec3 \<Rightarrow> vec3 \<Rightarrow> vec3" where
  "vsub p q = (vx p - vx q, vy p - vy q, vz p - vz q)"

definition vscale :: "vec3 \<Rightarrow> real \<Rightarrow> vec3" where
  \<comment> \<open>numpy's \<open>array * scalar\<close>\<close>
  "vscale p s = (vx p * s, vy p * s, vz p * s)"

definition vdiv :: "vec3 \<Rightarrow> real \<Rightarrow> vec3" where
  \<comment> \<open>numpy's \<open>array / scalar\<close>\<close>
  "vdiv p s = (vx p / s, vy p / s, vz p / s)"

definition linalg_norm :: "vec3 \<Rightarrow> real" where
  \<comment> \<open>\<open>np.linalg.norm\<close> of a 3-vector\<close>
  "linalg_norm p = sqrt ((vx p)\<^sup>2 + (vy p)\<^sup>2 + (vz p)\<^sup>2)"

definition py_int :: "real \<Rightarrow> int" where
  \<comment> \<open>Python's \<open>int(x)\<close> on a finite float: truncation towards zero\<close>
  "py_int x = (if 0 \<le> x then \<lfloor>x\<rfloor> else \<lceil>x\<rceil>)"

section \<open>The elevation grid and its affine transform\<close>

text \<open>
  A numpy 2-D array is a shape and its cells; \<open>dem_cell d r c\<close> is \<open>dem[r, c]\<close>
  and is read only for \<open>r < dem_rows d\<close> and \<open>c < dem_cols d\<close>.
\<close>

record dem_grid =
  dem_rows :: nat
  dem_cols :: nat
  dem_cell :: "nat \<Rightarrow> nat \<Rightarrow> real"

text \<open>
  The transform is an \<open>affine.Affine\<close>: \<open>x = a * col + b * row + c\<close> and
  \<open>y = d * col + e * row + f\<close>.
\<close>

record affine =
  aff_a :: real
  aff_b :: real
  aff_c :: real
  aff_d :: real
  aff_e :: real
  aff_f :: real

definition affine_invert :: "affine \<Rightarrow> py_error + affine" where
  \<comment> \<open>\<open>~transform\<close>; the library raises when the determinant is zero\<close>
  "affine_invert t =
     (let det = aff_a t * aff_e t - aff_b t * aff_d t in
      if det = 0 then Inl TransformNotInvertibleError
      else
        (let idet = 1 / det;
             ra = aff_e t * idet;
             rb = - aff_b t * idet;
             rd = - aff_d t * idet;
             re = aff_a t * idet
         in Inr \<lparr>aff_a = ra, aff_b = rb, aff_c = - aff_c t * ra - aff_f t * rb,
                 aff_d = rd, aff_e = re, aff_f = - aff_c t * rd - aff_f t * re\<rparr>))"

definition affine_apply :: "affine \<Rightarrow> real \<times> real \<Rightarrow> real \<times> real" where
  \<comment> \<open>\<open>transform * (x, y)\<close>\<close>
  "affine_apply t p =
     (aff_a t * fst p + aff_b t * snd p + aff_c t, aff_d t * fst p + aff_e t * snd p + aff_f t)"

definition dem_values :: "dem_grid \<Rightarrow> real list" where
  \<comment> \<open>the cells in row-major order, as reductions over the array visit them\<close>
  "dem_values d = concat (map (\<lambda>r. map (\<lambda>c. dem_cell d r c) [0..<dem_cols d]) [0..<dem_rows d])"

definition np_min :: "real list \<Rightarrow> py_error + real" where
  \<comment> \<open>\<open>np.min\<close>: a zero-size array has no minimum and raises\<close>
  "np_min xs = (case xs of [] \<Rightarrow> Inl ValueError | x # r \<Rightarrow> Inr (fold min r x))"

definition np_max :: "real list \<Rightarrow> py_error + real" where
  "np_max xs = (case xs of [] \<Rightarrow> Inl ValueError | x # r \<Rightarrow> Inr (fold max r x))"

record bounds =
  min_x :: real
  max_x :: real
  min_y :: real
  max_y :: real

definition in_dem_bounds :: "bounds \<Rightarrow> real \<Rightarrow> real \<Rightarrow> bool" where
  \<comment> \<open>the boundary check written twice in the source, in the query and in the march\<close>
  "in_dem_bounds b x y \<longleftrightarrow> min_x b \<le> x \<and> x \<le> max_x b \<and> min_y b \<le> y \<and> y \<le> max_y b"

section \<open>The interpolation structure\<close>

text \<open>
  \<open>np.linspace(start, stop, num)\<close> with the end point included: \<open>num\<close> values,
  equally spaced by \<open>(stop - start) / (num - 1)\<close>; one value, \<open>start\<close>, when
  \<open>num = 1\<close>, and none when \<open>num = 0\<close>.
\<close>

definition linspace :: "real \<Rightarrow> real \<Rightarrow> nat \<Rightarrow> real list" where
  "linspace start stop num =
     (if num = 1 then [start]
      else map (\<lambda>i. start + real i * ((stop - start) / real (num - 1))) [0..<num])"

text \<open>
  \<open>scipy.interpolate.RegularGridInterpolator\<close> in two dimensions, \<open>method='linear'\<close>,
  \<open>bounds_error=False\<close>, \<open>fill_value=nan\<close>. The constructor accepts an axis that is
  strictly ascending or strictly descending, reverses a descending one together with the
  values along it, and raises for any other axis. The object keeps ascending axes.
\<close>

record interpolator =
  grid_y :: "real list"
  grid_x :: "real list"
  grid_values :: "nat \<Rightarrow> nat \<Rightarrow> real"

fun strictly_ascending :: "real list \<Rightarrow> bool" where
  "strictly_ascending (p # q # r) \<longleftrightarrow> p < q \<and> strictly_ascending (q # r)"
| "strictly_ascending _ \<longleftrightarrow> True"

fun strictly_descending :: "real list \<Rightarrow> bool" where
  "strictly_descending (p # q # r) \<longleftrightarrow> q < p \<and> strictly_descending (q # r)"
| "strictly_descending _ \<longleftrightarrow> True"

definition RegularGridInterpolator ::
  "real list \<Rightarrow> real list \<Rightarrow> (nat \<Rightarrow> nat \<Rightarrow> real) \<Rightarrow> py_error + interpolator" where
  "RegularGridInterpolator ys xs vals =
     (if \<not> strictly_ascending ys \<and> \<not> strictly_descending ys then Inl ValueError
      else if \<not> strictly_ascending xs \<and> \<not> strictly_descending xs then Inl ValueError
      else
        (let flip_y = \<not> strictly_ascending ys;
             flip_x = \<not> strictly_ascending xs
         in Inr \<lparr>grid_y = (if flip_y then rev ys else ys),
                 grid_x = (if flip_x then rev xs else xs),
                 grid_values = (\<lambda>i j. vals (if flip_y then length ys - 1 - i else i)
                                            (if flip_x then length xs - 1 - j else j))\<rparr>))"

definition find_interval :: "real list \<Rightarrow> real \<Rightarrow> nat" where
  \<comment> \<open>the cell of an ascending axis that holds an in-range \<open>v\<close>: the last knot at or
      below \<open>v\<close>, and the last cell for the last knot; on a knot both cells beside it
      interpolate to the knot's value\<close>
  "find_interval g v = min (length g - 2) (length (takeWhile (\<lambda>k. k \<le> v) g) - 1)"

definition axis_weight :: "real list \<Rightarrow> real \<Rightarrow> nat \<times> nat \<times> real" where
  \<comment> \<open>lower index, upper index and normalised distance; an axis of one knot uses that
      knot twice with distance 0\<close>
  "axis_weight g v =
     (if length g = 1 then (0, 0, 0)
      else
        (let i = find_interval g v
         in (i, i + 1, (v - g ! i) / (g ! (i + 1) - g ! i))))"

definition interpolate :: "interpolator \<Rightarrow> real \<Rightarrow> real \<Rightarrow> py_error + real option" where
  \<comment> \<open>the call \<open>interpolator([y, x])[0]\<close>; \<open>None\<close> is the fill value NaN\<close>
  "interpolate ip y x =
     (if grid_y ip = [] \<or> grid_x ip = [] then Inl IndexError
      else if y < hd (grid_y ip) \<or> last (grid_y ip) < y
              \<or> x < hd (grid_x ip) \<or> last (grid_x ip) < x then Inr None
      else
        (case (axis_weight (grid_y ip) y, axis_weight (grid_x ip) x) of
           ((i0, i1, ty), (j0, j1, tx)) \<Rightarrow>
             Inr (Some ((1 - ty) * (1 - tx) * grid_values ip i0 j0
                      + (1 - ty) * tx * grid_values ip i0 j1
                      + ty * (1 - tx) * grid_values ip i1 j0
                      + ty * tx * grid_values ip i1 j1))))"

section \<open>GeoreferencingEngine\<close>

record engine =
  dem :: dem_grid
  transform :: affine
  inv_transform :: affine
  dem_bounds :: bounds
  interpolator :: "interpolator option"

definition compute_dem_bounds :: "dem_grid \<Rightarrow> affine \<Rightarrow> bounds" where
  "compute_dem_bounds d t =
     \<lparr>min_x = aff_c t,
      max_x = aff_c t + aff_a t * real (dem_cols d),
      min_y = aff_f t + aff_e t * real (dem_rows d),
      max_y = aff_f t\<rparr>"

definition create_interpolator :: "dem_grid \<Rightarrow> bounds \<Rightarrow> py_error + interpolator" where
  "create_interpolator d b =
     (let x_coords = linspace (min_x b) (max_x b) (dem_cols d);
          y_coords = linspace (max_y b) (min_y b) (dem_rows d)
      in RegularGridInterpolator y_coords x_coords (dem_cell d))"

definition engine_init :: "dem_grid \<Rightarrow> affine \<Rightarrow> py_error + engine" where
  \<comment> \<open>\<open>GeoreferencingEngine.__init__\<close>\<close>
  "engine_init d t =
     (case affine_invert t of
        Inl err \<Rightarrow> Inl err
      | Inr inv_t \<Rightarrow>
          (let b = compute_dem_bounds d t in
           case create_interpolator d b of
             Inl err \<Rightarrow> Inl err
           | Inr ip \<Rightarrow>
               Inr \<lparr>dem = d, transform = t, inv_transform = inv_t, dem_bounds = b,
                    interpolator = Some ip\<rparr>))"

definition bilinear_fallback :: "engine \<Rightarrow> real \<Rightarrow> real \<Rightarrow> py_error + real option" where
  \<comment> \<open>the lines of \<open>get_elevation_at_point\<close> after the interpolator branch\<close>
  "bilinear_fallback eng x y =
     (case affine_invert (transform eng) of
        Inl err \<Rightarrow> Inl err
      | Inr inv_t \<Rightarrow>
          (case affine_apply inv_t (x, y) of
             (col, row) \<Rightarrow>
               (let num_rows = int (dem_rows (dem eng));
                    num_cols = int (dem_cols (dem eng))
                in if \<not> (0 \<le> row \<and> row < of_int (num_rows - 1)
                         \<and> 0 \<le> col \<and> col < of_int (num_cols - 1)) then Inr None
                   else
                     (let r_int = nat (py_int row);
                          c_int = nat (py_int col);
                          r_frac = row - real r_int;
                          c_frac = col - real c_int;
                          z11 = dem_cell (dem eng) r_int c_int;
                          z12 = dem_cell (dem eng) r_int (c_int + 1);
                          z21 = dem_cell (dem eng) (r_int + 1) c_int;
                          z22 = dem_cell (dem eng) (r_int + 1) (c_int + 1);
                          z_r1 = (1 - c_frac) * z11 + c_frac * z12;
                          z_r2 = (1 - c_frac) * z21 + c_frac * z22
                      in Inr (Some ((1 - r_frac) * z_r1 + r_frac * z_r2))))))"

definition get_elevation_at_point :: "engine \<Rightarrow> real \<times> real \<Rightarrow> py_error + real option" where
  "get_elevation_at_point eng world_xy =
     (let x = fst world_xy; y = snd world_xy in
      if \<not> in_dem_bounds (dem_bounds eng) x y then Inr None
      else
        (case interpolator eng of
           Some ip \<Rightarrow> interpolate ip y x
         | None \<Rightarrow> bilinear_fallback eng x y))"

section \<open>The ray and terrain intersector\<close>

definition midpoint3 :: "vec3 \<Rightarrow> vec3 \<Rightarrow> vec3" where
  \<comment> \<open>\<open>(point1 + point2) / 2\<close>\<close>
  "midpoint3 p q = vdiv (vadd p q) 2"

definition bisect_final :: "engine \<Rightarrow> vec3 \<Rightarrow> vec3 \<Rightarrow> py_error + vec3" where
  \<comment> \<open>the last three lines of \<open>_bisect_intersection\<close>; \<open>final_elev if final_elev else ...\<close>
      tests truthiness, and both \<open>None\<close> and \<open>0.0\<close> are false\<close>
  "bisect_final eng point1 point2 =
     (let final_point = midpoint3 point1 point2 in
      case get_elevation_at_point eng (vx final_point, vy final_point) of
        Inl err \<Rightarrow> Inl err
      | Inr final_elev \<Rightarrow>
          Inr (vx final_point, vy final_point,
               (case final_elev of
                  None \<Rightarrow> vz final_point
                | Some h \<Rightarrow> if h \<noteq> 0 then h else vz final_point)))"

fun bisect_loop ::
  "engine \<Rightarrow> nat \<Rightarrow> vec3 \<Rightarrow> vec3 \<Rightarrow> real \<Rightarrow> real \<Rightarrow> py_error + vec3" where
  "bisect_loop eng 0 point1 point2 elev1 elev2 = bisect_final eng point1 point2"
| "bisect_loop eng (Suc n) point1 point2 elev1 elev2 =
     (let mid_point = midpoint3 point1 point2 in
      case get_elevation_at_point eng (vx mid_point, vy mid_point) of
        Inl err \<Rightarrow> Inl err
      | Inr None \<Rightarrow> bisect_final eng point1 point2
      | Inr (Some mid_elev) \<Rightarrow>
          if \<bar>vz mid_point - mid_elev\<bar> < 1 / 10 then Inr (vx mid_point, vy mid_point, mid_elev)
          else if vz mid_point > mid_elev then bisect_loop eng n mid_point point2 mid_elev elev2
          else bisect_loop eng n point1 mid_point elev1 mid_elev)"

definition bisect_intersection ::
  "engine \<Rightarrow> vec3 \<Rightarrow> vec3 \<Rightarrow> real \<Rightarrow> real \<Rightarrow> py_error + vec3" where
  \<comment> \<open>\<open>_bisect_intersection\<close> with its default \<open>max_iter=10\<close>\<close>
  "bisect_intersection eng point1 point2 elev1 elev2 = bisect_loop eng 10 point1 point2 elev1 elev2"

fun coarse_march ::
  "engine \<Rightarrow> vec3 \<Rightarrow> real \<Rightarrow> nat \<Rightarrow> vec3 \<Rightarrow> (vec3 \<times> real) option \<Rightarrow> py_error + vec3 option" where
  "coarse_march eng ray_direction step_size_coarse 0 current_point prev = Inr None"
| "coarse_march eng ray_direction step_size_coarse (Suc n) current_point prev =
     (let current_point = vadd current_point (vscale ray_direction step_size_coarse) in
      if \<not> in_dem_bounds (dem_bounds eng) (vx current_point) (vy current_point) then Inr None
      else
        (case get_elevation_at_point eng (vx current_point, vy current_point) of
           Inl err \<Rightarrow> Inl err
         | Inr None \<Rightarrow> Inr None
         | Inr (Some ground_elevation) \<Rightarrow>
             if vz current_point \<le> ground_elevation then
               (case prev of
                  Some (prev_point, prev_elevation) \<Rightarrow>
                    map_sum id Some
                      (bisect_intersection eng prev_point current_point
                         prev_elevation ground_elevation)
                | None \<Rightarrow> Inr (Some (vx current_point, vy current_point, ground_elevation)))
             else coarse_march eng ray_direction step_size_coarse n current_point
                    (Some (current_point, ground_elevation))))"

definition coarse_step :: "engine \<Rightarrow> real option \<Rightarrow> real" where
  \<comment> \<open>\<open>step_size_coarse\<close>: five cells of the grid, or the caller's step\<close>
  "coarse_step eng step_size =
     (let dem_resolution = max \<bar>aff_a (transform eng)\<bar> \<bar>aff_e (transform eng)\<bar> in
      case step_size of None \<Rightarrow> dem_resolution * 5 | Some s \<Rightarrow> s)"

definition step_budget :: "real \<Rightarrow> real \<Rightarrow> int option \<Rightarrow> py_error + int" where
  \<comment> \<open>\<open>max_steps\<close>: the caller's, or computed; a zero step makes the quotient infinite
      and \<open>int\<close> of it raises\<close>
  "step_budget estimated_ray_length step_size_coarse max_steps =
     (case max_steps of
        Some n \<Rightarrow> Inr n
      | None \<Rightarrow>
          if step_size_coarse = 0 then Inl OverflowError
          else Inr (max 1000 (py_int (estimated_ray_length / step_size_coarse) + 100)))"

definition intersect_ray_with_dem ::
  "engine \<Rightarrow> vec3 \<Rightarrow> vec3 \<Rightarrow> real option \<Rightarrow> int option \<Rightarrow> py_error + vec3 option" where
  "intersect_ray_with_dem eng ray_origin ray_direction step_size max_steps =
     (if vz ray_direction \<ge> 0 then Inr None
      else
        (let ray_direction = vdiv ray_direction (linalg_norm ray_direction) in
         case np_max (dem_values (dem eng)) of
           Inl err \<Rightarrow> Inl err
         | Inr dem_max_elevation \<Rightarrow>
             (case np_min (dem_values (dem eng)) of
                Inl err \<Rightarrow> Inl err
              | Inr dem_min_elevation \<Rightarrow>
                  (let vertical_distance = vz ray_origin - dem_min_elevation in
                   if vertical_distance \<le> 0 then Inr None
                   else
                     (let cos_angle = \<bar>vz ray_direction\<bar>;
                          estimated_ray_length = vertical_distance / cos_angle;
                          step_size_coarse = coarse_step eng step_size
                      in case step_budget estimated_ray_length step_size_coarse max_steps of
                           Inl err \<Rightarrow> Inl err
                         | Inr n \<Rightarrow>
                             coarse_march eng ray_direction step_size_coarse (nat n)
                               ray_origin None)))))"

text \<open>
  Two notions for stating what the march does: the \<open>k\<close>-th point of the march in closed
  form, and a point that lies inside the bounds, has a terrain elevation and is strictly
  above it.
\<close>

definition march_sample :: "vec3 \<Rightarrow> vec3 \<Rightarrow> real \<Rightarrow> nat \<Rightarrow> vec3" where
  "march_sample ray_origin ray_direction step_size_coarse k =
     vadd ray_origin (vscale (vscale ray_direction step_size_coarse) (real k))"

definition coarse_sample :: "engine \<Rightarrow> vec3 \<Rightarrow> vec3 \<Rightarrow> real option \<Rightarrow> nat \<Rightarrow> vec3" where
  \<comment> \<open>the \<open>k\<close>-th point of the march of \<open>intersect_ray_with_dem\<close>, which normalises
      the direction and chooses the step\<close>
  "coarse_sample eng ray_origin ray_direction step_size k =
     march_sample ray_origin (vdiv ray_direction (linalg_norm ray_direction))
       (coarse_step eng step_size) k"

definition above_terrain :: "engine \<Rightarrow> vec3 \<Rightarrow> bool" where
  "above_terrain eng p \<longleftrightarrow>
     (case get_elevation_at_point eng (vx p, vy p) of
        Inr (Some ground_elevation) \<Rightarrow> ground_elevation < vz p
      | _ \<Rightarrow> False)"

section \<open>CameraModel\<close>

type_synonym mat3 = "vec3 \<times> vec3 \<times> vec3"

definition mat_vec :: "mat3 \<Rightarrow> vec3 \<Rightarrow> vec3" where
  \<comment> \<open>\<open>M @ v\<close>; a matrix is its three rows\<close>
  "mat_vec m v =
     (case m of (r1, r2, r3) \<Rightarrow>
        (vx r1 * vx v + vy r1 * vy v + vz r1 * vz v,
         vx r2 * vx v + vy r2 * vy v + vz r2 * vz v,
         vx r3 * vx v + vy r3 * vy v + vz r3 * vz v))"

definition mat_T :: "mat3 \<Rightarrow> mat3" where
  \<comment> \<open>\<open>M.T\<close>\<close>
  "mat_T m =
     (case m of (r1, r2, r3) \<Rightarrow>
        ((vx r1, vx r2, vx r3), (vy r1, vy r2, vy r3), (vz r1, vz r2, vz r3)))"

definition mat_mul :: "mat3 \<Rightarrow> mat3 \<Rightarrow> mat3" where
  \<comment> \<open>\<open>A @ B\<close>: row \<open>i\<close> of the product is row \<open>i\<close> of \<open>A\<close> against the columns of \<open>B\<close>\<close>
  "mat_mul m n = (case m of (r1, r2, r3) \<Rightarrow> (mat_vec (mat_T n) r1, mat_vec (mat_T n) r2, mat_vec (mat_T n) r3))"

definition deg2rad :: "real \<Rightarrow> real" where
  "deg2rad x = x * (pi / 180)"

definition Rx :: "real \<Rightarrow> mat3" where
  "Rx gamma = ((1, 0, 0), (0, cos gamma, - sin gamma), (0, sin gamma, cos gamma))"

definition Ry :: "real \<Rightarrow> mat3" where
  "Ry beta = ((cos beta, 0, sin beta), (0, 1, 0), (- sin beta, 0, cos beta))"

definition Rz :: "real \<Rightarrow> mat3" where
  "Rz alpha = ((cos alpha, - sin alpha, 0), (sin alpha, cos alpha, 0), (0, 0, 1))"

definition R_base :: mat3 where
  "R_base = ((1, 0, 0), (0, -1, 0), (0, 0, -1))"

definition create_rotation_matrix :: "real \<Rightarrow> real \<Rightarrow> real \<Rightarrow> mat3" where
  "create_rotation_matrix roll_deg pitch_deg yaw_deg =
     (let gamma = deg2rad roll_deg;
          beta = deg2rad pitch_deg;
          alpha = deg2rad yaw_deg;
          R_user = mat_mul (mat_mul (Rz alpha) (Ry beta)) (Rx gamma)
      in mat_mul R_user R_base)"

record camera_params =
  focal_length_px :: real
  sensor_size_px :: "real \<times> real"
  principal_point_px :: "(real \<times> real) option"
  rotation_roll :: real
  rotation_pitch :: real
  rotation_yaw :: real
  position_meters :: vec3

record camera =
  f_px :: real
  w_px :: real
  h_px :: real
  cx :: real
  cy :: real
  roll :: real
  pitch :: real
  yaw :: real
  R_cam_to_world :: mat3
  camera_pos_world :: vec3

definition camera_init :: "camera_params \<Rightarrow> camera" where
  \<comment> \<open>\<open>CameraModel.__init__\<close>\<close>
  "camera_init ps =
     (let w = fst (sensor_size_px ps); h = snd (sensor_size_px ps) in
      \<lparr>f_px = focal_length_px ps, w_px = w, h_px = h,
       cx = (case principal_point_px ps of Some pp \<Rightarrow> fst pp | None \<Rightarrow> w / 2),
       cy = (case principal_point_px ps of Some pp \<Rightarrow> snd pp | None \<Rightarrow> h / 2),
       roll = rotation_roll ps, pitch = rotation_pitch ps, yaw = rotation_yaw ps,
       R_cam_to_world =
         create_rotation_matrix (rotation_roll ps) (rotation_pitch ps) (rotation_yaw ps),
       camera_pos_world = position_meters ps\<rparr>)"

definition pixel_to_ray :: "camera \<Rightarrow> real \<times> real \<Rightarrow> vec3 \<times> vec3" where
  "pixel_to_ray cam pixel_coord =
     (let u = fst pixel_coord; v = snd pixel_coord;
          x_prime = u - cx cam;
          y_prime = cy cam - v;
          vec_camera = (x_prime, y_prime, f_px cam);
          ray_direction_world = mat_vec (R_cam_to_world cam) vec_camera;
          norm = linalg_norm ray_direction_world
      in if norm < 1 / 10 ^ 9 then (camera_pos_world cam, (0, 0, -1))
         else (camera_pos_world cam, vdiv ray_direction_world norm))"

definition world_to_camera_batch :: "camera \<Rightarrow> vec3 list \<Rightarrow> vec3 list" where
  "world_to_camera_batch cam world_points =
     map (\<lambda>p. mat_vec (mat_T (R_cam_to_world cam)) (vsub p (camera_pos_world cam))) world_points"

definition mask_select :: "'a list \<Rightarrow> bool list \<Rightarrow> 'a list" where
  \<comment> \<open>numpy's boolean-mask indexing \<open>xs[mask]\<close>\<close>
  "mask_select xs ms = map fst (filter snd (zip xs ms))"

definition np_where :: "bool list \<Rightarrow> nat list" where
  \<comment> \<open>\<open>np.where(mask)[0]\<close>: the indices of the true entries\<close>
  "np_where ms = map fst (filter snd (zip [0..<length ms] ms))"

definition scatter :: "'a list \<Rightarrow> nat list \<Rightarrow> 'b list \<Rightarrow> ('a \<Rightarrow> 'b \<Rightarrow> 'a) \<Rightarrow> 'a list" where
  \<comment> \<open>index-array assignment \<open>xs[idx] = vals\<close>, entry by entry\<close>
  "scatter xs idx vals upd = fold (\<lambda>(i, w) ys. ys[i := upd (ys ! i) w]) (zip idx vals) xs"

definition project_points_batch :: "camera \<Rightarrow> vec3 list \<Rightarrow> (real \<times> real) list \<times> bool list" where
  "project_points_batch cam world_points =
     (let N = length world_points;
          image_points = replicate N (0, 0);
          valid_mask = replicate N False;
          pts_camera = world_to_camera_batch cam world_points;
          front_mask = map (\<lambda>p. vz p > 0) pts_camera
      in if list_ex id front_mask then
           (let valid_pts = mask_select pts_camera front_mask;
                x_normalized = map (\<lambda>p. vx p / vz p) valid_pts;
                y_normalized = map (\<lambda>p. vy p / vz p) valid_pts;
                pixel_x = map (\<lambda>xn. f_px cam * xn + cx cam) x_normalized;
                pixel_y = map (\<lambda>yn. cy cam - f_px cam * yn) y_normalized;
                in_bounds = map (\<lambda>(px, py). px \<ge> 0 \<and> px < w_px cam \<and> py \<ge> 0 \<and> py < h_px cam)
                              (zip pixel_x pixel_y);
                valid_indices = np_where front_mask;
                final_valid = mask_select valid_indices in_bounds;
                image_points = scatter image_points final_valid (mask_select pixel_x in_bounds)
                                 (\<lambda>old w. (w, snd old));
                image_points = scatter image_points final_valid (mask_select pixel_y in_bounds)
                                 (\<lambda>old w. (fst old, w));
                valid_mask = scatter valid_mask final_valid (replicate (length final_valid) True)
                               (\<lambda>old w. w)
            in (image_points, valid_mask))
         else (image_points, valid_mask))"

definition world_to_pixel :: "camera \<Rightarrow> vec3 \<Rightarrow> (real \<times> real) option" where
  "world_to_pixel cam world_point =
     (let P_world = vsub world_point (camera_pos_world cam);
          P_cam = mat_vec (mat_T (R_cam_to_world cam)) P_world
      in if vz P_cam \<le> 0 then None
         else
           (let x_normalized = vx P_cam / vz P_cam;
                y_normalized = vy P_cam / vz P_cam;
                u = f_px cam * x_normalized + cx cam;
                v = cy cam - f_px cam * y_normalized
            in if 0 \<le> u \<and> u < w_px cam \<and> 0 \<le> v \<and> v < h_px cam then Some (u, v) else None))"

definition np_mean :: "real list \<Rightarrow> real" where
  \<comment> \<open>\<open>np.mean\<close> of a non-empty list\<close>
  "np_mean xs = sum_list xs / real (length xs)"

definition image_corners :: "camera \<Rightarrow> (real \<times> real) list" where
  \<comment> \<open>top-left, top-right, bottom-right, bottom-left\<close>
  "image_corners cam = [(0, 0), (w_px cam - 1, 0), (w_px cam - 1, h_px cam - 1), (0, h_px cam - 1)]"

definition corner_hit :: "camera \<Rightarrow> real \<Rightarrow> real \<times> real \<Rightarrow> (real \<times> real) option" where
  \<comment> \<open>one pass of the loop over the corners; \<open>None\<close> is \<open>continue\<close>\<close>
  "corner_hit cam ground_elevation pixel_coord =
     (case pixel_to_ray cam pixel_coord of
        (ray_origin, ray_direction) \<Rightarrow>
          if \<bar>vz ray_direction\<bar> < 1 / 10 ^ 9 then None
          else
            (let t = (ground_elevation - vz ray_origin) / vz ray_direction in
             if t < 0 then None
             else
               (let intersection_point = vadd ray_origin (vscale ray_direction t)
                in Some (vx intersection_point, vy intersection_point))))"

fun collect_footprint :: "camera \<Rightarrow> real \<Rightarrow> (real \<times> real) list \<Rightarrow> (real \<times> real) list" where
  "collect_footprint cam ground_elevation [] = []"
| "collect_footprint cam ground_elevation (pixel_coord # rest) =
     (case corner_hit cam ground_elevation pixel_coord of
        None \<Rightarrow> collect_footprint cam ground_elevation rest
      | Some p \<Rightarrow> p # collect_footprint cam ground_elevation rest)"

definition compute_ground_coverage :: "camera \<Rightarrow> real \<Rightarrow> (real \<times> real) list \<times> real" where
  "compute_ground_coverage cam ground_elevation =
     (let height_agl = vz (camera_pos_world cam) - ground_elevation in
      if height_agl \<le> 0 then ([], 0)
      else
        (let footprint = collect_footprint cam ground_elevation (image_corners cam) in
         if length footprint \<noteq> 4 then ([], 0)
         else
           (let center_x = np_mean (map fst footprint);
                center_y = np_mean (map snd footprint);
                distances = map (\<lambda>p. sqrt ((fst p - center_x)\<^sup>2 + (snd p - center_y)\<^sup>2)) footprint
            in (footprint, np_mean distances))))"

text \<open>
  For stating what the footprint holds: whether the ray of a pixel meets the horizontal
  plane at \<open>ground_elevation\<close> (not near-parallel, parameter not negative), and the
  \<open>(x, y)\<close> of the point where it does.
\<close>

definition plane_hit :: "camera \<Rightarrow> real \<Rightarrow> real \<times> real \<Rightarrow> bool" where
  "plane_hit cam ground_elevation pixel_coord \<longleftrightarrow>
     (case pixel_to_ray cam pixel_coord of
        (ray_origin, ray_direction) \<Rightarrow>
          1 / 10 ^ 9 \<le> \<bar>vz ray_direction\<bar>
          \<and> 0 \<le> (ground_elevation - vz ray_origin) / vz ray_direction)"

definition plane_point :: "camera \<Rightarrow> real \<Rightarrow> real \<times> real \<Rightarrow> real \<times> real" where
  "plane_point cam ground_elevation pixel_coord =
     (case pixel_to_ray cam pixel_coord of
        (ray_origin, ray_direction) \<Rightarrow>
          (let t = (ground_elevation - vz ray_origin) / vz ray_direction
           in (vx ray_origin + vx ray_direction * t, vy ray_origin + vy ray_direction * t)))"

definition euclid2 :: "real \<times> real \<Rightarrow> real \<times> real \<Rightarrow> real" where
  "euclid2 p q = sqrt ((fst p - fst q)\<^sup>2 + (snd p - snd q)\<^sup>2)"

section \<open>Example scenes\<close>

definition unit_transform :: affine where
  \<comment> \<open>cells of 1 m, origin at (0, 0), rows running towards negative y\<close>
  "unit_transform = \<lparr>aff_a = 1, aff_b = 0, aff_c = 0, aff_d = 0, aff_e = -1, aff_f = 0\<rparr>"

definition flat_dem :: dem_grid where
  "flat_dem = \<lparr>dem_rows = 2, dem_cols = 2, dem_cell = (\<lambda>r c. 100)\<rparr>"

definition flat_engine :: engine where
  "flat_engine = projr (engine_init flat_dem unit_transform)"

definition down_params :: camera_params where
  \<comment> \<open>a camera 3 m above the origin that looks straight down: focal length 1, a sensor
      of 5 by 5 pixels with the principal point on pixel (2, 2), no rotation\<close>
  "down_params =
     \<lparr>focal_length_px = 1, sensor_size_px = (5, 5), principal_point_px = Some (2, 2),
      rotation_roll = 0, rotation_pitch = 0, rotation_yaw = 0, position_meters = (0, 0, 3)\<rparr>"

definition down_camera :: camera where
  "down_camera = camera_init down_params"

definition tiny_focal_params :: camera_params where
  \<comment> \<open>a focal length of \<open>1e-10\<close> pixels, a sensor of 2 by 2 pixels, pitch 180 degrees\<close>
  "tiny_focal_params =
     \<lparr>focal_length_px = 1 / 10 ^ 10, sensor_size_px = (2, 2), principal_point_px = None,
      rotation_roll = 0, rotation_pitch = 180, rotation_yaw = 0, position_meters = (0, 0, 0)\<rparr>"

definition tiny_focal_camera :: camera where
  "tiny_focal_camera = camera_init tiny_focal_params"

definition negative_focal_params :: camera_params where
  \<comment> \<open>a focal length of \<open>-1\<close> pixel, no rotation\<close>
  "negative_focal_params =
     \<lparr>focal_length_px = - 1, sensor_size_px = (2, 2), principal_point_px = None,
      rotation_roll = 0, rotation_pitch = 0, rotation_yaw = 0, position_meters = (0, 0, 0)\<rparr>"

definition negative_focal_camera :: camera where
  "negative_focal_camera = camera_init negative_focal_params"

definition zero_dem :: dem_grid where
  "zero_dem = \<lparr>dem_rows = 2, dem_cols = 2, dem_cell = (\<lambda>r c. 0)\<rparr>"

definition zero_engine :: engine where
  "zero_engine = projr (engine_init zero_dem unit_transform)"

definition ramp_dem :: dem_grid where
  \<comment> \<open>two rows \<open>[0, 1]\<close>: the elevation rises with the column\<close>
  "ramp_dem = \<lparr>dem_rows = 2, dem_cols = 2, dem_cell = (\<lambda>r c. real c)\<rparr>"

definition ramp_engine :: engine where
  "ramp_engine = projr (engine_init ramp_dem unit_transform)"

definition single_dem :: dem_grid where
  \<comment> \<open>a grid of one sample\<close>
  "single_dem = \<lparr>dem_rows = 1, dem_cols = 1, dem_cell = (\<lambda>r c. 5)\<rparr>"

definition single_engine :: engine where
  "single_engine = projr (engine_init single_dem unit_transform)"

section \<open>Elevation queries on a grid of one constant\<close>

lemma length_linspace: "length (linspace a b n) = n"
  by (simp add: linspace_def)

lemma hd_linspace: "0 < n \<Longrightarrow> hd (linspace a b n) = a"
  by (simp add: linspace_def hd_map hd_upt)

lemma nth_linspace:
  "2 \<le> n \<Longrightarrow> i < n \<Longrightarrow> linspace a b n ! i = a + real i * ((b - a) / real (n - 1))"
  by (simp add: linspace_def)

lemma last_linspace:
  assumes "2 \<le> n"
  shows "last (linspace a b n) = b"
proof -
  have "last (linspace a b n) = linspace a b n ! (n - 1)"
    using assms by (simp add: last_conv_nth length_linspace flip: length_0_conv)
  also have "\<dots> = a + real (n - 1) * ((b - a) / real (n - 1))"
    using assms by (simp add: nth_linspace)
  also have "\<dots> = b"
    using assms by simp
  finally show ?thesis .
qed

lemma strictly_ascending_first: "strictly_ascending xs \<Longrightarrow> 2 \<le> length xs \<Longrightarrow> xs ! 0 < xs ! 1"
  by (cases xs rule: strictly_ascending.cases) auto

lemma strictly_descending_first: "strictly_descending xs \<Longrightarrow> 2 \<le> length xs \<Longrightarrow> xs ! 1 < xs ! 0"
  by (cases xs rule: strictly_descending.cases) auto

lemma linspace_ascending:
  assumes "strictly_ascending (linspace a b n)" "2 \<le> n"
  shows "a < b"
proof -
  from strictly_ascending_first [OF assms(1)] assms(2)
  have "linspace a b n ! 0 < linspace a b n ! 1"
    by (simp add: length_linspace)
  with assms(2) have "0 < (b - a) / real (n - 1)"
    by (simp add: nth_linspace)
  with assms(2) show ?thesis
    by (simp add: zero_less_divide_iff)
qed

lemma linspace_descending:
  assumes "strictly_descending (linspace a b n)" "2 \<le> n"
  shows "b < a"
proof -
  from strictly_descending_first [OF assms(1)] assms(2)
  have "linspace a b n ! 1 < linspace a b n ! 0"
    by (simp add: length_linspace)
  with assms(2) have "(b - a) / real (n - 1) < 0"
    by (simp add: nth_linspace)
  with assms(2) show ?thesis
    by (simp add: divide_less_0_iff)
qed

lemma find_interval_le: "find_interval g v \<le> length g - 2"
  by (simp add: find_interval_def)

lemma axis_weight_range:
  assumes "2 \<le> length g" "axis_weight g v = (i0, i1, t)"
  shows "i0 < length g \<and> i1 < length g"
  using assms find_interval_le [of g v] by (auto simp: axis_weight_def Let_def)

lemma bilinear_constant:
  "(1 - ty) * (1 - tx) * E + (1 - ty) * tx * E + ty * (1 - tx) * E + ty * tx * E = (E::real)"
  by (simp add: algebra_simps)

lemma interpolate_constant:
  assumes "2 \<le> length (grid_y ip)" "2 \<le> length (grid_x ip)"
    and "hd (grid_y ip) \<le> y" "y \<le> last (grid_y ip)"
    and "hd (grid_x ip) \<le> x" "x \<le> last (grid_x ip)"
    and "\<forall>i<length (grid_y ip). \<forall>j<length (grid_x ip). grid_values ip i j = E"
  shows "interpolate ip y x = Inr (Some E)"
proof -
  obtain i0 i1 ty where wy: "axis_weight (grid_y ip) y = (i0, i1, ty)"
    by (cases "axis_weight (grid_y ip) y") auto
  obtain j0 j1 tx where wx: "axis_weight (grid_x ip) x = (j0, j1, tx)"
    by (cases "axis_weight (grid_x ip) x") auto
  from axis_weight_range [OF assms(1) wy] axis_weight_range [OF assms(2) wx] assms(7)
  have vals: "grid_values ip i0 j0 = E" "grid_values ip i0 j1 = E"
    "grid_values ip i1 j0 = E" "grid_values ip i1 j1 = E"
    by auto
  from assms(1,2) have ne: "grid_y ip \<noteq> []" "grid_x ip \<noteq> []"
    by auto
  from assms(3-6) ne show ?thesis
    by (simp add: interpolate_def wy wx vals bilinear_constant)
qed

lemma create_interpolator_in_bounds:
  assumes "create_interpolator d b = Inr ip" "2 \<le> dem_rows d" "2 \<le> dem_cols d"
    and "in_dem_bounds b x y"
  shows "grid_y ip = rev (linspace (max_y b) (min_y b) (dem_rows d))
         \<and> grid_x ip = linspace (min_x b) (max_x b) (dem_cols d)
         \<and> grid_values ip = (\<lambda>i j. dem_cell d (dem_rows d - 1 - i) j)"
proof -
  let ?ys = "linspace (max_y b) (min_y b) (dem_rows d)"
  let ?xs = "linspace (min_x b) (max_x b) (dem_cols d)"
  from assms(4) have le: "min_x b \<le> max_x b" "min_y b \<le> max_y b"
    by (auto simp: in_dem_bounds_def)
  have ny: "\<not> strictly_ascending ?ys"
    using linspace_ascending [of "max_y b" "min_y b" "dem_rows d"] assms(2) le by auto
  have nx: "\<not> strictly_descending ?xs"
    using linspace_descending [of "min_x b" "max_x b" "dem_cols d"] assms(3) le by auto
  from assms(1) ny nx show ?thesis
    by (auto simp: create_interpolator_def RegularGridInterpolator_def Let_def length_linspace
        split: if_splits)
qed

lemma engine_init_fields:
  assumes "engine_init d t = Inr eng"
  shows "dem eng = d \<and> transform eng = t \<and> dem_bounds eng = compute_dem_bounds d t
         \<and> (\<exists>ip. interpolator eng = Some ip \<and> create_interpolator d (compute_dem_bounds d t) = Inr ip)"
  using assms by (auto simp: engine_init_def Let_def split: sum.splits)

lemma flat_grid_elevation:
  assumes "engine_init d t = Inr eng" "2 \<le> dem_rows d" "2 \<le> dem_cols d"
    and "\<forall>r<dem_rows d. \<forall>c<dem_cols d. dem_cell d r c = E"
  shows "get_elevation_at_point eng (x, y)
         = (if in_dem_bounds (dem_bounds eng) x y then Inr (Some E) else Inr None)"
proof (cases "in_dem_bounds (dem_bounds eng) x y")
  case False
  then show ?thesis by (simp add: get_elevation_at_point_def)
next
  case True
  let ?b = "compute_dem_bounds d t"
  from engine_init_fields [OF assms(1)] obtain ip where
    b: "dem_bounds eng = ?b" and ip: "interpolator eng = Some ip"
    and cr: "create_interpolator d ?b = Inr ip"
    by blast
  from True b have inb: "in_dem_bounds ?b x y" by simp
  note g = create_interpolator_in_bounds [OF cr assms(2,3) inb]
  have ly: "2 \<le> length (grid_y ip)" and lx: "2 \<le> length (grid_x ip)"
    using g assms(2,3) by (simp_all add: length_linspace)
  have ney: "linspace (max_y ?b) (min_y ?b) (dem_rows d) \<noteq> []"
    using assms(2) length_linspace [of "max_y ?b" "min_y ?b" "dem_rows d"] by auto
  have hy: "hd (grid_y ip) = min_y ?b" "last (grid_y ip) = max_y ?b"
    using g assms(2) ney by (simp_all add: hd_rev last_rev last_linspace hd_linspace)
  have hx: "hd (grid_x ip) = min_x ?b" "last (grid_x ip) = max_x ?b"
    using g assms(3) by (simp_all add: last_linspace hd_linspace)
  have vals: "\<forall>i<length (grid_y ip). \<forall>j<length (grid_x ip). grid_values ip i j = E"
    using g assms(2,3,4) by (auto simp: length_linspace)
  from inb have "hd (grid_y ip) \<le> y" "y \<le> last (grid_y ip)"
    "hd (grid_x ip) \<le> x" "x \<le> last (grid_x ip)"
    by (simp_all add: hy hx in_dem_bounds_def)
  from interpolate_constant [OF ly lx this vals] True ip show ?thesis
    by (simp add: get_elevation_at_point_def)
qed

lemma elevation_in_bounds:
  "get_elevation_at_point eng (x, y) = Inr (Some g) \<Longrightarrow> in_dem_bounds (dem_bounds eng) x y"
  by (auto simp: get_elevation_at_point_def Let_def split: if_splits)

section \<open>The example scenes, evaluated\<close>

lemma upt_2: "[0..<2] = [0, Suc 0]"
  by (simp add: upt_rec numeral_2_eq_2)

lemmas scene_defs = engine_init_def affine_invert_def unit_transform_def
      compute_dem_bounds_def create_interpolator_def linspace_def
      RegularGridInterpolator_def upt_2 Let_def

lemmas vec_defs = vx_def vy_def vz_def vadd_def vsub_def vscale_def vdiv_def

lemma flat_dem_values: "dem_values flat_dem = [100, 100, 100, 100]"
  by (simp add: dem_values_def flat_dem_def upt_2)

lemma flat_engine_dem: "dem flat_engine = flat_dem"
  by (simp add: flat_engine_def flat_dem_def scene_defs)

lemma flat_engine_init: "engine_init flat_dem unit_transform = Inr flat_engine"
  by (simp add: flat_engine_def flat_dem_def scene_defs)

lemma flat_engine_bounds: "dem_bounds flat_engine = \<lparr>min_x = 0, max_x = 2, min_y = -2, max_y = 0\<rparr>"
  by (simp add: flat_engine_def flat_dem_def scene_defs)

lemma flat_engine_elevation:
  "get_elevation_at_point flat_engine (x, y)
   = (if in_dem_bounds (dem_bounds flat_engine) x y then Inr (Some 100) else Inr None)"
  by (rule flat_grid_elevation [OF flat_engine_init]) (simp_all add: flat_dem_def)

lemma flat_engine_min: "np_min (dem_values (dem flat_engine)) = Inr 100"
  by (simp add: flat_engine_dem flat_dem_values np_min_def)

lemma zero_engine_init: "engine_init zero_dem unit_transform = Inr zero_engine"
  by (simp add: zero_engine_def zero_dem_def scene_defs)

lemma zero_engine_bounds: "dem_bounds zero_engine = \<lparr>min_x = 0, max_x = 2, min_y = -2, max_y = 0\<rparr>"
  by (simp add: zero_engine_def zero_dem_def scene_defs)

lemma zero_engine_elevation:
  "get_elevation_at_point zero_engine (x, y)
   = (if in_dem_bounds (dem_bounds zero_engine) x y then Inr (Some 0) else Inr None)"
  by (rule flat_grid_elevation [OF zero_engine_init]) (simp_all add: zero_dem_def)

lemma down_norm: "vdiv (0, 0, - 1) (linalg_norm (0, 0, - 1)) = (0, 0, - 1)"
  by (simp add: linalg_norm_def vec_defs)

lemma down_sample:
  "coarse_sample eng (x, y, z) (0, 0, - 1) (Some s) k = (x, y, z - s * real k)"
  unfolding coarse_sample_def down_norm
  by (simp add: march_sample_def coarse_step_def vec_defs)

section \<open>Validation of the ray\<close>

text \<open>
  C1. A ray whose direction has a z-component at or above 0 is refused with \<open>None\<close>
  whatever the grid holds, and so is a ray whose origin is at or below the lowest
  elevation sample of the grid; neither reaches the march.
\<close>

theorem intersect_rejects_invalid_ray:
  assumes "vz ray_direction \<ge> 0
           \<or> (\<exists>m. np_min (dem_values (dem eng)) = Inr m \<and> vz ray_origin \<le> m)"
  shows "intersect_ray_with_dem eng ray_origin ray_direction step_size max_steps = Inr None"
proof (cases "vz ray_direction \<ge> 0")
  case True
  then show ?thesis by (simp add: intersect_ray_with_dem_def)
next
  case False
  with assms obtain m where m: "np_min (dem_values (dem eng)) = Inr m" "vz ray_origin \<le> m"
    by blast
  from m(1) have "dem_values (dem eng) \<noteq> []"
    by (auto simp: np_min_def)
  then obtain mx where mx: "np_max (dem_values (dem eng)) = Inr mx"
    by (cases "dem_values (dem eng)") (auto simp: np_max_def)
  from False m mx show ?thesis
    by (simp add: intersect_ray_with_dem_def Let_def)
qed

theorem intersect_rejects_invalid_ray_witness:
  "np_min (dem_values (dem flat_engine)) = Inr 100 \<and> vz (1, -1, 50) \<le> 100
   \<and> intersect_ray_with_dem flat_engine (1, -1, 50) (0, 0, -1) None None = Inr None"
proof -
  have h: "np_min (dem_values (dem flat_engine)) = Inr 100 \<and> vz (1, -1, 50) \<le> 100"
    by (simp add: flat_engine_dem flat_dem_values np_min_def vz_def)
  then have "0 \<le> vz (0, 0, -1)
             \<or> (\<exists>m. np_min (dem_values (dem flat_engine)) = Inr m \<and> vz (1, -1, 50) \<le> m)"
    by blast
  from intersect_rejects_invalid_ray [OF this] h show ?thesis
    by simp
qed

section \<open>The coarse march\<close>

lemma march_sample_0: "march_sample p d s 0 = p"
  by (cases p) (simp add: march_sample_def vadd_def vscale_def vx_def vy_def vz_def)

lemma march_sample_Suc: "march_sample p d s (Suc k) = vadd (march_sample p d s k) (vscale d s)"
  by (simp add: march_sample_def vadd_def vscale_def vx_def vy_def vz_def algebra_simps)

lemma intersect_valid:
  assumes "vz ray_direction < 0"
    and "np_min (dem_values (dem eng)) = Inr m"
    and "m < vz ray_origin"
    and "step_budget ((vz ray_origin - m) / \<bar>vz (vdiv ray_direction (linalg_norm ray_direction))\<bar>)
           (coarse_step eng step_size) max_steps = Inr n"
  shows "intersect_ray_with_dem eng ray_origin ray_direction step_size max_steps
         = coarse_march eng (vdiv ray_direction (linalg_norm ray_direction))
             (coarse_step eng step_size) (nat n) ray_origin None"
proof -
  from assms(2) have "dem_values (dem eng) \<noteq> []"
    by (auto simp: np_min_def)
  then obtain mx where "np_max (dem_values (dem eng)) = Inr mx"
    by (cases "dem_values (dem eng)") (auto simp: np_max_def)
  with assms show ?thesis
    by (simp add: intersect_ray_with_dem_def Let_def)
qed

lemma march_first_hit:
  assumes "get_elevation_at_point eng (vx (march_sample p d s 1), vy (march_sample p d s 1)) = Inr (Some g)"
    and "vz (march_sample p d s 1) \<le> g"
  shows "coarse_march eng d s (Suc n) p None
         = Inr (Some (vx (march_sample p d s 1), vy (march_sample p d s 1), g))"
proof -
  have eq: "march_sample p d s (Suc 0) = vadd p (vscale d s)"
    by (simp add: march_sample_Suc march_sample_0)
  from assms(1) have "in_dem_bounds (dem_bounds eng) (vx (march_sample p d s 1)) (vy (march_sample p d s 1))"
    by (rule elevation_in_bounds)
  with assms show ?thesis
    by (simp add: eq Let_def)
qed

lemma march_while_above:
  assumes "\<forall>j\<in>{1..k}. above_terrain eng (march_sample p d s (i + j))"
  shows "\<exists>prev'. coarse_march eng d s (k + r) (march_sample p d s i) prev
                 = coarse_march eng d s r (march_sample p d s (i + k)) prev'"
  using assms
proof (induction k arbitrary: i prev)
  case 0
  then show ?case by auto
next
  case (Suc k)
  let ?q = "march_sample p d s (Suc i)"
  from Suc.prems have "above_terrain eng (march_sample p d s (i + 1))"
    by (metis atLeastAtMost_iff le_add1 plus_1_eq_Suc  order_refl)
  then obtain g where g: "get_elevation_at_point eng (vx ?q, vy ?q) = Inr (Some g)" "g < vz ?q"
    by (auto simp: above_terrain_def split: sum.splits option.splits)
  from g(1) have inb: "in_dem_bounds (dem_bounds eng) (vx ?q) (vy ?q)"
    by (rule elevation_in_bounds)
  have step: "coarse_march eng d s (Suc k + r) (march_sample p d s i) prev
              = coarse_march eng d s (k + r) ?q (Some (?q, g))"
    using g inb by (simp add: march_sample_Suc [symmetric] Let_def)
  have "\<forall>j\<in>{1..k}. above_terrain eng (march_sample p d s (Suc i + j))"
  proof
    fix j assume "j \<in> {1..k}"
    then have "Suc j \<in> {1..Suc k}" by simp
    with Suc.prems have "above_terrain eng (march_sample p d s (i + Suc j))" by blast
    then show "above_terrain eng (march_sample p d s (Suc i + j))" by simp
  qed
  from Suc.IH [OF this, of "Some (?q, g)"] step show ?case
    by simp
qed

lemma march_exhausted:
  assumes "\<forall>j\<in>{1..n}. above_terrain eng (march_sample p d s j)"
  shows "coarse_march eng d s n p None = Inr None"
proof -
  from assms have "\<forall>j\<in>{1..n}. above_terrain eng (march_sample p d s (0 + j))" by simp
  from march_while_above [OF this, of 0 None] show ?thesis
    by (auto simp: march_sample_0)
qed

lemma march_leaves_bounds:
  assumes "k \<in> {1..n}"
    and "\<not> in_dem_bounds (dem_bounds eng) (vx (march_sample p d s k)) (vy (march_sample p d s k))"
    and "\<forall>j\<in>{1..<k}. above_terrain eng (march_sample p d s j)"
  shows "coarse_march eng d s n p None = Inr None"
proof -
  from assms(1) obtain k' r where k: "k = Suc k'" and n: "n = k' + Suc r"
    by (cases k) (auto simp: le_iff_add)
  from assms(3) k have "\<forall>j\<in>{1..k'}. above_terrain eng (march_sample p d s (0 + j))"
    by auto
  from march_while_above [OF this, of "Suc r" None]
  obtain prev' where "coarse_march eng d s n p None
      = coarse_march eng d s (Suc r) (march_sample p d s k') prev'"
    by (auto simp: march_sample_0 n)
  moreover have "coarse_march eng d s (Suc r) (march_sample p d s k') prev' = Inr None"
    using assms(2) by (simp add: k march_sample_Suc Let_def)
  ultimately show ?thesis by simp
qed

lemma step_budget_positive:
  assumes "case max_steps of None \<Rightarrow> s \<noteq> 0 | Some n \<Rightarrow> 0 < n"
  shows "\<exists>n. step_budget est s max_steps = Inr n \<and> 0 < n"
  using assms by (auto simp: step_budget_def split: option.splits)

text \<open>
  C2. For a ray that passes validation, the march fails with \<open>None\<close> in both cases:
  some sample \<open>k\<close> within the budget lies outside the world bounds while every earlier
  sample was inside and above the terrain; or every sample of the budget is inside and
  above the terrain. No point is returned.
\<close>

theorem coarse_march_failure:
  assumes "vz ray_direction < 0"
    and "np_min (dem_values (dem eng)) = Inr m"
    and "m < vz ray_origin"
    and "step_budget
           ((vz ray_origin - m) / \<bar>vz (vdiv ray_direction (linalg_norm ray_direction))\<bar>)
           (coarse_step eng step_size) max_steps = Inr n"
    and "(\<exists>k\<in>{1..nat n}.
            \<not> in_dem_bounds (dem_bounds eng)
                 (vx (coarse_sample eng ray_origin ray_direction step_size k))
                 (vy (coarse_sample eng ray_origin ray_direction step_size k))
            \<and> (\<forall>j\<in>{1..<k}. above_terrain eng (coarse_sample eng ray_origin ray_direction step_size j)))
         \<or> (\<forall>j\<in>{1..nat n}. above_terrain eng (coarse_sample eng ray_origin ray_direction step_size j))"
  shows "intersect_ray_with_dem eng ray_origin ray_direction step_size max_steps = Inr None"
proof -
  let ?d = "vdiv ray_direction (linalg_norm ray_direction)"
  let ?s = "coarse_step eng step_size"
  have eq: "intersect_ray_with_dem eng ray_origin ray_direction step_size max_steps
            = coarse_march eng ?d ?s (nat n) ray_origin None"
    by (rule intersect_valid [OF assms(1-4)])
  from assms(5) have "coarse_march eng ?d ?s (nat n) ray_origin None = Inr None"
  proof
    assume "\<exists>k\<in>{1..nat n}.
            \<not> in_dem_bounds (dem_bounds eng)
                 (vx (coarse_sample eng ray_origin ray_direction step_size k))
                 (vy (coarse_sample eng ray_origin ray_direction step_size k))
            \<and> (\<forall>j\<in>{1..<k}. above_terrain eng (coarse_sample eng ray_origin ray_direction step_size j))"
    then obtain k where "k \<in> {1..nat n}"
      "\<not> in_dem_bounds (dem_bounds eng) (vx (march_sample ray_origin ?d ?s k))
           (vy (march_sample ray_origin ?d ?s k))"
      "\<forall>j\<in>{1..<k}. above_terrain eng (march_sample ray_origin ?d ?s j)"
      unfolding coarse_sample_def by blast
    then show ?thesis by (rule march_leaves_bounds)
  next
    assume "\<forall>j\<in>{1..nat n}. above_terrain eng (coarse_sample eng ray_origin ray_direction step_size j)"
    then have "\<forall>j\<in>{1..nat n}. above_terrain eng (march_sample ray_origin ?d ?s j)"
      unfolding coarse_sample_def .
    then show ?thesis by (rule march_exhausted)
  qed
  with eq show ?thesis by simp
qed

theorem coarse_march_failure_witness:
  "intersect_ray_with_dem flat_engine (1, - 1, 200) (0, 0, - 1) (Some 10) (Some 3) = Inr None
   \<and> above_terrain flat_engine (coarse_sample flat_engine (1, - 1, 200) (0, 0, - 1) (Some 10) 1)
   \<and> above_terrain flat_engine (coarse_sample flat_engine (1, - 1, 200) (0, 0, - 1) (Some 10) 2)
   \<and> above_terrain flat_engine (coarse_sample flat_engine (1, - 1, 200) (0, 0, - 1) (Some 10) 3)
   \<and> intersect_ray_with_dem flat_engine (5, 5, 200) (0, 0, - 1) (Some 10) (Some 3) = Inr None
   \<and> \<not> in_dem_bounds (dem_bounds flat_engine)
          (vx (coarse_sample flat_engine (5, 5, 200) (0, 0, - 1) (Some 10) 1))
          (vy (coarse_sample flat_engine (5, 5, 200) (0, 0, - 1) (Some 10) 1))"
proof -
  have v: "vz (0, 0, - 1) < 0" "100 < vz (1, - 1, 200)" "100 < vz (5, 5, 200)"
    by (simp_all add: vz_def)
  have b: "step_budget ((vz p - 100) / \<bar>vz (vdiv (0, 0, - 1) (linalg_norm (0, 0, - 1)))\<bar>)
             (coarse_step flat_engine (Some 10)) (Some 3) = Inr 3" for p
    by (simp add: step_budget_def)
  have above: "\<forall>j\<in>{1..nat 3}. above_terrain flat_engine
          (coarse_sample flat_engine (1, - 1, 200) (0, 0, - 1) (Some 10) j)"
    by (auto simp: down_sample above_terrain_def flat_engine_elevation flat_engine_bounds
        in_dem_bounds_def vec_defs)
  have out: "\<not> in_dem_bounds (dem_bounds flat_engine)
          (vx (coarse_sample flat_engine (5, 5, 200) (0, 0, - 1) (Some 10) 1))
          (vy (coarse_sample flat_engine (5, 5, 200) (0, 0, - 1) (Some 10) 1))"
    by (simp add: down_sample flat_engine_bounds in_dem_bounds_def vec_defs)
  have r1: "intersect_ray_with_dem flat_engine (1, - 1, 200) (0, 0, - 1) (Some 10) (Some 3) = Inr None"
    using above by (intro coarse_march_failure [OF v(1) flat_engine_min v(2) b]) blast
  have "\<exists>k\<in>{1..nat 3}. \<not> in_dem_bounds (dem_bounds flat_engine)
          (vx (coarse_sample flat_engine (5, 5, 200) (0, 0, - 1) (Some 10) k))
          (vy (coarse_sample flat_engine (5, 5, 200) (0, 0, - 1) (Some 10) k))
        \<and> (\<forall>j\<in>{1..<k}. above_terrain flat_engine
              (coarse_sample flat_engine (5, 5, 200) (0, 0, - 1) (Some 10) j))"
    using out by (intro bexI [of _ 1]) auto
  then have r2: "intersect_ray_with_dem flat_engine (5, 5, 200) (0, 0, - 1) (Some 10) (Some 3) = Inr None"
    by (intro coarse_march_failure [OF v(1) flat_engine_min v(3) b]) blast
  from above have "above_terrain flat_engine
          (coarse_sample flat_engine (1, - 1, 200) (0, 0, - 1) (Some 10) j)" if "j \<in> {1, 2, 3}" for j
    using that by auto
  with r1 r2 out show ?thesis by simp
qed

text \<open>
  C9. When the first sample of the march is already at or below the terrain, there is no
  earlier sample to bisect from: the result is that sample's \<open>(x, y)\<close> with the terrain
  elevation found there as \<open>z\<close>, and the bisection is not run.
\<close>

theorem first_sample_hit_skips_bisection:
  assumes "vz ray_direction < 0"
    and "np_min (dem_values (dem eng)) = Inr m"
    and "m < vz ray_origin"
    and "case max_steps of None \<Rightarrow> coarse_step eng step_size \<noteq> 0 | Some n \<Rightarrow> 0 < n"
    and "get_elevation_at_point eng
           (vx (coarse_sample eng ray_origin ray_direction step_size 1),
            vy (coarse_sample eng ray_origin ray_direction step_size 1)) = Inr (Some g)"
    and "vz (coarse_sample eng ray_origin ray_direction step_size 1) \<le> g"
  shows "intersect_ray_with_dem eng ray_origin ray_direction step_size max_steps
         = Inr (Some (vx (coarse_sample eng ray_origin ray_direction step_size 1),
                      vy (coarse_sample eng ray_origin ray_direction step_size 1), g))"
proof -
  let ?d = "vdiv ray_direction (linalg_norm ray_direction)"
  from step_budget_positive [OF assms(4)] obtain n where
    n: "step_budget ((vz ray_origin - m) / \<bar>vz ?d\<bar>) (coarse_step eng step_size) max_steps = Inr n"
    and pos: "0 < n"
    by blast
  from pos obtain k where k: "nat n = Suc k"
    by (cases "nat n") auto
  have "intersect_ray_with_dem eng ray_origin ray_direction step_size max_steps
        = coarse_march eng ?d (coarse_step eng step_size) (Suc k) ray_origin None"
    using intersect_valid [OF assms(1-3) n] k by simp
  also have "\<dots> = Inr (Some (vx (coarse_sample eng ray_origin ray_direction step_size 1),
                      vy (coarse_sample eng ray_origin ray_direction step_size 1), g))"
    using assms(5,6) unfolding coarse_sample_def by (rule march_first_hit)
  finally show ?thesis .
qed

theorem first_sample_hit_skips_bisection_witness:
  "vz (0, 0, - 1) < 0
   \<and> np_min (dem_values (dem flat_engine)) = Inr 100
   \<and> 100 < vz (1, - 1, 105)
   \<and> (case None of None \<Rightarrow> coarse_step flat_engine (Some 10) \<noteq> 0 | Some n \<Rightarrow> 0 < (n::int))
   \<and> get_elevation_at_point flat_engine
        (vx (coarse_sample flat_engine (1, - 1, 105) (0, 0, - 1) (Some 10) 1),
         vy (coarse_sample flat_engine (1, - 1, 105) (0, 0, - 1) (Some 10) 1)) = Inr (Some 100)
   \<and> vz (coarse_sample flat_engine (1, - 1, 105) (0, 0, - 1) (Some 10) 1) \<le> 100
   \<and> intersect_ray_with_dem flat_engine (1, - 1, 105) (0, 0, - 1) (Some 10) None
       = Inr (Some (1, - 1, 100))"
proof -
  have h1: "vz (0, 0, - 1) < 0" "100 < vz (1, - 1, 105)"
    by (simp_all add: vz_def)
  have h2: "case None of None \<Rightarrow> coarse_step flat_engine (Some 10) \<noteq> 0 | Some n \<Rightarrow> 0 < (n::int)"
    by (simp add: coarse_step_def)
  have h3: "get_elevation_at_point flat_engine
        (vx (coarse_sample flat_engine (1, - 1, 105) (0, 0, - 1) (Some 10) 1),
         vy (coarse_sample flat_engine (1, - 1, 105) (0, 0, - 1) (Some 10) 1)) = Inr (Some 100)"
    by (simp add: down_sample flat_engine_elevation flat_engine_bounds in_dem_bounds_def vec_defs)
  have h4: "vz (coarse_sample flat_engine (1, - 1, 105) (0, 0, - 1) (Some 10) 1) \<le> 100"
    by (simp add: down_sample vec_defs)
  from first_sample_hit_skips_bisection [OF h1(1) flat_engine_min h1(2) h2 h3 h4]
  have "intersect_ray_with_dem flat_engine (1, - 1, 105) (0, 0, - 1) (Some 10) None
       = Inr (Some (1, - 1, 100))"
    by (simp add: down_sample vec_defs)
  with h1 h2 h3 h4 flat_engine_min show ?thesis
    by simp
qed

section \<open>The bisection\<close>

text \<open>
  C10. Once the iterations are used up, the last midpoint is queried once more. A terrain
  elevation of exactly 0 there is handled as an absent one: in both cases the \<open>z\<close> of
  the result is the midpoint's own \<open>z\<close> on the ray.
\<close>

theorem bisect_fallback_zero_elevation_as_absent:
  assumes "get_elevation_at_point eng (vx (midpoint3 point1 point2), vy (midpoint3 point1 point2))
           \<in> {Inr (Some 0), Inr None}"
  shows "bisect_loop eng 0 point1 point2 elev1 elev2
         = Inr (vx (midpoint3 point1 point2), vy (midpoint3 point1 point2),
                vz (midpoint3 point1 point2))"
  using assms by (auto simp: bisect_final_def Let_def)

theorem bisect_fallback_zero_elevation_as_absent_witness:
  "get_elevation_at_point zero_engine
     (vx (midpoint3 (1, -1, 5) (1, -1, -1)), vy (midpoint3 (1, -1, 5) (1, -1, -1)))
     \<in> {Inr (Some 0), Inr None}
   \<and> bisect_loop zero_engine 0 (1, -1, 5) (1, -1, -1) 7 0 = Inr (1, -1, 2)"
proof -
  have h: "get_elevation_at_point zero_engine
     (vx (midpoint3 (1, -1, 5) (1, -1, -1)), vy (midpoint3 (1, -1, 5) (1, -1, -1)))
     \<in> {Inr (Some 0), Inr None}"
    by (simp add: zero_engine_elevation zero_engine_bounds in_dem_bounds_def midpoint3_def vec_defs)
  from bisect_fallback_zero_elevation_as_absent [OF h, of 7 0] h show ?thesis
    by (simp add: midpoint3_def vec_defs)
qed

text \<open>
  The fallback is reached from the whole bisection: over terrain at elevation 0, ten
  halvings of the segment from \<open>z = 4096\<close> to \<open>z = -1\<close> never come within 0.1 of the
  terrain, and the result keeps the ray's \<open>z\<close> instead of 0.
\<close>

lemma bisect_exhaustion_example:
  "bisect_intersection zero_engine (1, -1, 4096) (1, -1, -1) 0 0 = Inr (1, -1, 2049 / 2048)"
  by (simp add: bisect_intersection_def eval_nat_numeral bisect_final_def zero_engine_elevation
      zero_engine_bounds in_dem_bounds_def midpoint3_def vec_defs Let_def)

section \<open>The elevation query\<close>

text \<open>
  C3, as the code has it. On a grid of at least two rows and two columns whose samples all
  equal \<open>E\<close>, and whose engine could be constructed, the query returns \<open>E\<close> at every
  point inside the world bounds and \<open>None\<close> at every point outside.
\<close>

theorem flat_grid_elevation_amended:
  assumes "engine_init d t = Inr eng" "2 \<le> dem_rows d" "2 \<le> dem_cols d"
    and "\<forall>r<dem_rows d. \<forall>c<dem_cols d. dem_cell d r c = E"
  shows "get_elevation_at_point eng (x, y)
         = (if in_dem_bounds (dem_bounds eng) x y then Inr (Some E) else Inr None)"
  using assms by (rule flat_grid_elevation)

theorem flat_grid_elevation_amended_witness:
  "engine_init flat_dem unit_transform = Inr flat_engine
   \<and> dem_rows flat_dem = 2 \<and> dem_cols flat_dem = 2 \<and> dem_cell flat_dem = (\<lambda>r c. 100)
   \<and> in_dem_bounds (dem_bounds flat_engine) (1 / 2) (- 3 / 2)
   \<and> get_elevation_at_point flat_engine (1 / 2, - 3 / 2) = Inr (Some 100)
   \<and> get_elevation_at_point flat_engine (3, - 1) = Inr None"
proof -
  have h: "2 \<le> dem_rows flat_dem" "2 \<le> dem_cols flat_dem"
    "\<forall>r<dem_rows flat_dem. \<forall>c<dem_cols flat_dem. dem_cell flat_dem r c = 100"
    by (simp_all add: flat_dem_def)
  note inst = flat_grid_elevation_amended [OF flat_engine_init h]
  from inst [of "1 / 2" "- 3 / 2"] inst [of 3 "- 1"] flat_engine_init show ?thesis
    by (simp add: flat_engine_bounds in_dem_bounds_def flat_dem_def)
qed

text \<open>
  C3, as stated for any grid shape, fails on a grid with a single sample per axis:
  \<open>linspace\<close> of one value is the start of the range only, so the interpolator covers
  one point of the world bounds and answers NaN for every other point inside them.
\<close>

theorem single_cell_counterexample:
  "engine_init single_dem unit_transform = Inr single_engine
   \<and> dem_rows single_dem = 1 \<and> dem_cols single_dem = 1 \<and> dem_cell single_dem 0 0 = 5
   \<and> in_dem_bounds (dem_bounds single_engine) (1 / 2) (- 1 / 2)
   \<and> get_elevation_at_point single_engine (1 / 2, - 1 / 2) = Inr None"
  by (simp add: single_engine_def single_dem_def scene_defs in_dem_bounds_def
      get_elevation_at_point_def interpolate_def)

text \<open>
  C4. The interpolation structure and the raw-grid fallback are meant to compute one
  value, and do not. The structure spreads the \<open>n\<close> samples of an axis over the whole
  width of the bounds (\<open>linspace\<close> puts them \<open>width / (n - 1)\<close> apart), the fallback reads
  the affine transform (samples one cell apart, from the upper left corner). On the ramp
  \<open>[[0, 1], [0, 1]]\<close> with cells of 1 m the first answers 0.25 at \<open>(0.5, -0.5)\<close> and the
  second 0.5; at \<open>(1.5, -0.5)\<close>, inside the bounds, the first answers 0.75 and the second
  nothing.
\<close>

theorem interpolator_and_fallback_disagree:
  "in_dem_bounds (dem_bounds ramp_engine) (1 / 2) (- 1 / 2)
   \<and> get_elevation_at_point ramp_engine (1 / 2, - 1 / 2) = Inr (Some (1 / 4))
   \<and> get_elevation_at_point (ramp_engine\<lparr>interpolator := None\<rparr>) (1 / 2, - 1 / 2)
       = Inr (Some (1 / 2))
   \<and> in_dem_bounds (dem_bounds ramp_engine) (3 / 2) (- 1 / 2)
   \<and> get_elevation_at_point ramp_engine (3 / 2, - 1 / 2) = Inr (Some (3 / 4))
   \<and> get_elevation_at_point (ramp_engine\<lparr>interpolator := None\<rparr>) (3 / 2, - 1 / 2) = Inr None"
  by (simp add: ramp_engine_def ramp_dem_def scene_defs get_elevation_at_point_def
      in_dem_bounds_def interpolate_def axis_weight_def find_interval_def
      bilinear_fallback_def affine_apply_def py_int_def)

section \<open>The rotation of the camera\<close>

lemmas mat_defs = mat_vec_def mat_T_def mat_mul_def

lemma mat_vec_mul: "mat_vec (mat_mul A B) v = mat_vec A (mat_vec B v)"
  by (cases A; cases B; cases v) (simp add: mat_defs vec_defs algebra_simps)

lemma mat_T_mul: "mat_T (mat_mul A B) = mat_mul (mat_T B) (mat_T A)"
  by (cases A; cases B) (simp add: mat_defs vec_defs algebra_simps)

lemma cs1: "cos g * cos g + sin g * sin g = (1::real)"
  using sin_cos_squared_add2 [of g] by (simp add: power2_eq_square)

lemma rot_back_1:
  assumes "c * c + s * s = (1::real)"
  shows "c * (c * y - s * z) + s * (s * y + c * z) = y"
proof -
  have "c * (c * y - s * z) + s * (s * y + c * z) = (c * c + s * s) * y"
    by (simp add: algebra_simps)
  with assms show ?thesis by simp
qed

lemma rot_back_2:
  assumes "c * c + s * s = (1::real)"
  shows "c * (s * y + c * z) - s * (c * y - s * z) = z"
proof -
  have "c * (s * y + c * z) - s * (c * y - s * z) = (c * c + s * s) * z"
    by (simp add: algebra_simps)
  with assms show ?thesis by simp
qed

lemma rot_norm:
  assumes "c * c + s * s = (1::real)"
  shows "(c * y - s * z)\<^sup>2 + (s * y + c * z)\<^sup>2 = y\<^sup>2 + z\<^sup>2"
proof -
  have "(c * y - s * z)\<^sup>2 + (s * y + c * z)\<^sup>2 = (c * c + s * s) * (y\<^sup>2 + z\<^sup>2)"
    by (simp add: power2_eq_square algebra_simps)
  with assms show ?thesis by simp
qed

lemma Rx_orth: "mat_vec (mat_T (Rx g)) (mat_vec (Rx g) v) = v"
proof (cases v)
  case (fields x y z)
  from rot_back_1 [OF cs1, of g y z] rot_back_2 [OF cs1, of g y z] show ?thesis
    by (simp add: fields Rx_def mat_defs vec_defs algebra_simps)
qed

lemma Ry_orth: "mat_vec (mat_T (Ry g)) (mat_vec (Ry g) v) = v"
proof (cases v)
  case (fields x y z)
  from rot_back_1 [OF cs1, of g z x] rot_back_2 [OF cs1, of g z x] show ?thesis
    by (simp add: fields Ry_def mat_defs vec_defs algebra_simps)
qed

lemma Rz_orth: "mat_vec (mat_T (Rz g)) (mat_vec (Rz g) v) = v"
proof (cases v)
  case (fields x y z)
  from rot_back_1 [OF cs1, of g x y] rot_back_2 [OF cs1, of g x y] show ?thesis
    by (simp add: fields Rz_def mat_defs vec_defs algebra_simps)
qed

lemma R_base_orth: "mat_vec (mat_T R_base) (mat_vec R_base v) = v"
  by (cases v) (simp add: R_base_def mat_defs vec_defs)

lemma R_base_apply: "mat_vec R_base (x, y, z) = (x, - y, - z)"
  by (simp add: R_base_def mat_defs vec_defs)

lemma rotation_apply:
  "mat_vec (create_rotation_matrix r p y) v
   = mat_vec (Rz (deg2rad y)) (mat_vec (Ry (deg2rad p)) (mat_vec (Rx (deg2rad r)) (mat_vec R_base v)))"
  by (simp add: create_rotation_matrix_def Let_def mat_vec_mul)

lemma rotation_orth:
  "mat_vec (mat_T (create_rotation_matrix r p y)) (mat_vec (create_rotation_matrix r p y) v) = v"
  by (simp add: create_rotation_matrix_def Let_def mat_T_mul mat_vec_mul
      Rx_orth Ry_orth Rz_orth R_base_orth)

lemma Rx_norm: "linalg_norm (mat_vec (Rx g) v) = linalg_norm v"
proof (cases v)
  case (fields x y z)
  from rot_norm [OF cs1, of g y z] show ?thesis
    by (simp add: fields Rx_def mat_defs vec_defs linalg_norm_def algebra_simps)
qed

lemma Ry_norm: "linalg_norm (mat_vec (Ry g) v) = linalg_norm v"
proof (cases v)
  case (fields x y z)
  from rot_norm [OF cs1, of g z x] show ?thesis
    by (simp add: fields Ry_def mat_defs vec_defs linalg_norm_def algebra_simps)
qed

lemma Rz_norm: "linalg_norm (mat_vec (Rz g) v) = linalg_norm v"
proof (cases v)
  case (fields x y z)
  from rot_norm [OF cs1, of g x y] show ?thesis
    by (simp add: fields Rz_def mat_defs vec_defs linalg_norm_def algebra_simps)
qed

lemma R_base_norm: "linalg_norm (mat_vec R_base v) = linalg_norm v"
  by (cases v) (simp add: R_base_def mat_defs vec_defs linalg_norm_def)

lemma rotation_norm:
  "linalg_norm (mat_vec (create_rotation_matrix r p y) v) = linalg_norm v"
  by (simp add: rotation_apply Rx_norm Ry_norm Rz_norm R_base_norm)

lemma norm_normalised:
  assumes "0 < linalg_norm w"
  shows "linalg_norm (vdiv w (linalg_norm w)) = 1"
proof (cases w)
  case (fields x y z)
  let ?s = "x\<^sup>2 + y\<^sup>2 + z\<^sup>2"
  from assms have s: "0 < ?s"
    by (simp add: fields linalg_norm_def vec_defs)
  have "(x / sqrt ?s)\<^sup>2 + (y / sqrt ?s)\<^sup>2 + (z / sqrt ?s)\<^sup>2 = 1"
    using s by (simp add: power_divide flip: add_divide_distrib)
  then show ?thesis
    by (simp add: fields linalg_norm_def vec_defs)
qed

lemma pixel_to_ray_unit:
  "linalg_norm (snd (pixel_to_ray cam pixel_coord)) = 1"
proof -
  let ?w = "mat_vec (R_cam_to_world cam) (fst pixel_coord - cx cam, cy cam - snd pixel_coord, f_px cam)"
  show ?thesis
  proof (cases "linalg_norm ?w < 1 / 10 ^ 9")
    case True
    then show ?thesis
      by (simp add: pixel_to_ray_def Let_def linalg_norm_def vec_defs)
  next
    case False
    then have "0 < linalg_norm ?w" by simp
    from norm_normalised [OF this] False show ?thesis
      by (simp add: pixel_to_ray_def Let_def)
  qed
qed

lemma norm_z_axis: "linalg_norm (0, 0, z) = \<bar>z\<bar>"
  by (simp add: linalg_norm_def vec_defs)

section \<open>Rays and projections\<close>

text \<open>
  C6. The direction returned for a pixel \<open>(u, v)\<close> has length 1. It is the camera-local
  vector \<open>(u - cx, cy - v, f)\<close> with its \<open>y\<close> and \<open>z\<close> negated, rotated about \<open>x\<close> by
  the roll, about \<open>y\<close> by the pitch and about \<open>z\<close> by the yaw, and divided by its norm;
  when that norm is below \<open>1e-9\<close> it is \<open>(0, 0, -1)\<close>.
\<close>

theorem pixel_to_ray_direction:
  "snd (pixel_to_ray (camera_init ps) (u, v))
   = (let c = camera_init ps;
          w = mat_vec (Rz (deg2rad (yaw c)))
                (mat_vec (Ry (deg2rad (pitch c)))
                  (mat_vec (Rx (deg2rad (roll c))) (u - cx c, - (cy c - v), - f_px c)))
      in if linalg_norm w < 1 / 10 ^ 9 then (0, 0, - 1) else vdiv w (linalg_norm w))
   \<and> linalg_norm (snd (pixel_to_ray (camera_init ps) (u, v))) = 1"
proof -
  have "R_cam_to_world (camera_init ps)
        = create_rotation_matrix (roll (camera_init ps)) (pitch (camera_init ps)) (yaw (camera_init ps))"
    by (simp add: camera_init_def Let_def)
  then show ?thesis
    by (simp add: pixel_to_ray_unit) (simp add: pixel_to_ray_def Let_def rotation_apply R_base_apply)
qed

text \<open>
  C8. On a single point the batch projection and \<open>world_to_pixel\<close> agree: a pixel from
  the one is the valid entry with the same coordinates in the other, \<open>None\<close> from the one
  is the invalid entry \<open>(0, 0)\<close> in the other, and \<open>None\<close> means a camera-frame \<open>z\<close> at
  or below 0 or a pixel outside \<open>[0, width) \<times> [0, height)\<close>.
\<close>

theorem batch_agrees_with_single:
  "(world_to_pixel cam p = Some (u, v) \<longleftrightarrow> project_points_batch cam [p] = ([(u, v)], [True]))
   \<and> (world_to_pixel cam p = None \<longleftrightarrow> project_points_batch cam [p] = ([(0, 0)], [False]))
   \<and> (world_to_pixel cam p = None \<longleftrightarrow>
        (let P_cam = mat_vec (mat_T (R_cam_to_world cam)) (vsub p (camera_pos_world cam));
             px = f_px cam * (vx P_cam / vz P_cam) + cx cam;
             py = cy cam - f_px cam * (vy P_cam / vz P_cam)
         in vz P_cam \<le> 0 \<or> px < 0 \<or> w_px cam \<le> px \<or> py < 0 \<or> h_px cam \<le> py))"
  by (auto simp: project_points_batch_def world_to_pixel_def world_to_camera_batch_def
      mask_select_def np_where_def scatter_def Let_def)

section \<open>The footprint on the ground\<close>

lemma corner_hit_eq:
  "corner_hit cam g pc = (if plane_hit cam g pc then Some (plane_point cam g pc) else None)"
  by (cases "pixel_to_ray cam pc")
    (auto simp: corner_hit_def plane_hit_def plane_point_def Let_def vec_defs not_less not_le)

lemma collect_footprint_length: "length (collect_footprint cam g xs) \<le> length xs"
  by (induction xs) (auto split: option.splits)

lemma collect_footprint_full:
  assumes "length (collect_footprint cam g xs) = length xs"
  shows "(\<forall>pc\<in>set xs. plane_hit cam g pc) \<and> collect_footprint cam g xs = map (plane_point cam g) xs"
  using assms
proof (induction xs)
  case Nil
  then show ?case by simp
next
  case (Cons pc xs)
  show ?case
  proof (cases "plane_hit cam g pc")
    case True
    with Cons show ?thesis by (simp add: corner_hit_eq)
  next
    case False
    with Cons.prems collect_footprint_length [of cam g xs] show ?thesis
      by (simp add: corner_hit_eq)
  qed
qed

lemma length_4:
  assumes "length xs = 4"
  obtains a b c d where "xs = [a, b, c, d]"
  using assms by (auto simp: eval_nat_numeral length_Suc_conv)

lemma sqrt_9: "sqrt 9 = 3"
  using real_sqrt_abs [of 3] by simp

lemma down_camera_fields:
  "f_px down_camera = 1" "w_px down_camera = 5" "h_px down_camera = 5"
  "cx down_camera = 2" "cy down_camera = 2" "camera_pos_world down_camera = (0, 0, 3)"
  "R_cam_to_world down_camera = ((1, 0, 0), (0, - 1, 0), (0, 0, - 1))"
  by (simp_all add: down_camera_def down_params_def camera_init_def create_rotation_matrix_def deg2rad_def
      Rx_def Ry_def Rz_def R_base_def mat_defs vec_defs Let_def)

lemma down_camera_rays:
  "pixel_to_ray down_camera (0, 0) = ((0, 0, 3), (- 2 / 3, - 2 / 3, - 1 / 3))"
  "pixel_to_ray down_camera (4, 0) = ((0, 0, 3), (2 / 3, - 2 / 3, - 1 / 3))"
  "pixel_to_ray down_camera (4, 4) = ((0, 0, 3), (2 / 3, 2 / 3, - 1 / 3))"
  "pixel_to_ray down_camera (0, 4) = ((0, 0, 3), (- 2 / 3, 2 / 3, - 1 / 3))"
  by (simp_all add: pixel_to_ray_def down_camera_fields mat_defs vec_defs linalg_norm_def
      Let_def sqrt_9)

lemma down_camera_footprint:
  "collect_footprint down_camera 0 (image_corners down_camera)
   = [(- 6, - 6), (6, - 6), (6, 6), (- 6, 6)]"
  by (simp add: image_corners_def down_camera_fields corner_hit_def down_camera_rays vec_defs Let_def)

text \<open>
  C5. With the camera at or below \<open>ground_elevation\<close> the result is the empty footprint
  and radius 0. A footprint that is not empty means that the ray of each of the four image
  corners met the plane; it then holds the four meeting points in the order of the
  corners, and the radius is the mean of the distances from their centroid to each.
\<close>

theorem ground_coverage_footprint:
  "(vz (camera_pos_world cam) \<le> ground_elevation
      \<longrightarrow> compute_ground_coverage cam ground_elevation = ([], 0))
   \<and> (fst (compute_ground_coverage cam ground_elevation) \<noteq> []
      \<longrightarrow> (\<forall>pixel_coord\<in>set (image_corners cam). plane_hit cam ground_elevation pixel_coord)
          \<and> fst (compute_ground_coverage cam ground_elevation)
              = map (plane_point cam ground_elevation) (image_corners cam)
          \<and> (\<exists>p1 p2 p3 p4 centroid.
                fst (compute_ground_coverage cam ground_elevation) = [p1, p2, p3, p4]
                \<and> centroid = ((fst p1 + fst p2 + fst p3 + fst p4) / 4,
                              (snd p1 + snd p2 + snd p3 + snd p4) / 4)
                \<and> snd (compute_ground_coverage cam ground_elevation)
                     = (euclid2 p1 centroid + euclid2 p2 centroid
                        + euclid2 p3 centroid + euclid2 p4 centroid) / 4))"
proof (intro conjI impI)
  assume "vz (camera_pos_world cam) \<le> ground_elevation"
  then show "compute_ground_coverage cam ground_elevation = ([], 0)"
    by (simp add: compute_ground_coverage_def)
next
  let ?fp = "collect_footprint cam ground_elevation (image_corners cam)"
  assume ne: "fst (compute_ground_coverage cam ground_elevation) \<noteq> []"
  then have len: "length ?fp = 4" and agl: "\<not> vz (camera_pos_world cam) - ground_elevation \<le> 0"
    by (auto simp: compute_ground_coverage_def Let_def split: if_splits)
  then have "length ?fp = length (image_corners cam)"
    by (simp add: image_corners_def)
  note full = collect_footprint_full [OF this]
  have res: "compute_ground_coverage cam ground_elevation
      = (?fp, np_mean (map (\<lambda>p. sqrt ((fst p - np_mean (map fst ?fp))\<^sup>2
                                      + (snd p - np_mean (map snd ?fp))\<^sup>2)) ?fp))"
    using len agl by (simp add: compute_ground_coverage_def Let_def)
  from full show "\<forall>pixel_coord\<in>set (image_corners cam). plane_hit cam ground_elevation pixel_coord"
    by blast
  from full res show "fst (compute_ground_coverage cam ground_elevation)
              = map (plane_point cam ground_elevation) (image_corners cam)"
    by simp
  from len obtain p1 p2 p3 p4 where fp: "?fp = [p1, p2, p3, p4]"
    by (rule length_4)
  show "\<exists>p1 p2 p3 p4 centroid.
                fst (compute_ground_coverage cam ground_elevation) = [p1, p2, p3, p4]
                \<and> centroid = ((fst p1 + fst p2 + fst p3 + fst p4) / 4,
                              (snd p1 + snd p2 + snd p3 + snd p4) / 4)
                \<and> snd (compute_ground_coverage cam ground_elevation)
                     = (euclid2 p1 centroid + euclid2 p2 centroid
                        + euclid2 p3 centroid + euclid2 p4 centroid) / 4"
    unfolding res fp
    by (rule exI [of _ p1], rule exI [of _ p2], rule exI [of _ p3], rule exI [of _ p4])
      (simp add: np_mean_def euclid2_def add.assoc)
qed

theorem ground_coverage_footprint_witness:
  "vz (camera_pos_world down_camera) \<le> 3
   \<and> compute_ground_coverage down_camera 3 = ([], 0)
   \<and> fst (compute_ground_coverage down_camera 0) = [(- 6, - 6), (6, - 6), (6, 6), (- 6, 6)]
   \<and> plane_hit down_camera 0 (0, 0) \<and> plane_hit down_camera 0 (4, 0)
   \<and> plane_hit down_camera 0 (4, 4) \<and> plane_hit down_camera 0 (0, 4)
   \<and> snd (compute_ground_coverage down_camera 0) = sqrt 72"
proof -
  have low: "vz (camera_pos_world down_camera) \<le> 3"
    by (simp add: down_camera_fields vz_def)
  have fp: "fst (compute_ground_coverage down_camera 0) = [(- 6, - 6), (6, - 6), (6, 6), (- 6, 6)]"
    by (simp add: compute_ground_coverage_def down_camera_footprint down_camera_fields vz_def Let_def)
  then have ne: "fst (compute_ground_coverage down_camera 0) \<noteq> []"
    by simp
  from ground_coverage_footprint [of down_camera 3] low
  have r1: "compute_ground_coverage down_camera 3 = ([], 0)"
    by blast
  from ground_coverage_footprint [of down_camera 0] ne
  have hits: "\<forall>pixel_coord\<in>set (image_corners down_camera). plane_hit down_camera 0 pixel_coord"
    and rad: "\<exists>p1 p2 p3 p4 centroid.
                fst (compute_ground_coverage down_camera 0) = [p1, p2, p3, p4]
                \<and> centroid = ((fst p1 + fst p2 + fst p3 + fst p4) / 4,
                              (snd p1 + snd p2 + snd p3 + snd p4) / 4)
                \<and> snd (compute_ground_coverage down_camera 0)
                     = (euclid2 p1 centroid + euclid2 p2 centroid
                        + euclid2 p3 centroid + euclid2 p4 centroid) / 4"
    by blast+
  from rad have r2: "snd (compute_ground_coverage down_camera 0) = sqrt 72"
    by (auto simp: fp euclid2_def)
  from hits have "plane_hit down_camera 0 (0, 0)" "plane_hit down_camera 0 (4, 0)"
    "plane_hit down_camera 0 (4, 4)" "plane_hit down_camera 0 (0, 4)"
    by (simp_all add: image_corners_def down_camera_fields)
  with low r1 fp r2 show ?thesis
    by simp
qed

section \<open>From a pixel to its ray and back\<close>

lemma mat_vec_scaled: "mat_vec M (vscale (vdiv w n) t) = vscale (vdiv (mat_vec M w) n) t"
  by (cases M; cases w) (simp add: mat_defs vec_defs algebra_simps add_divide_distrib)

lemma vsub_vadd: "vsub (vadd p q) p = q"
  by (cases p; cases q) (simp add: vec_defs)

lemma project_scaled:
  assumes "0 < f" "0 < n" "0 < t"
  shows "f * ((x / n * t) / (f / n * t)) = (x::real)"
  using assms by simp

lemma project_from_camera_frame:
  assumes "mat_vec (mat_T (R_cam_to_world c)) (vsub p (camera_pos_world c)) = (X, Y, Z)"
    and "0 < Z"
    and "f_px c * (X / Z) + cx c = u"
    and "cy c - f_px c * (Y / Z) = v"
    and "0 \<le> u" "u < w_px c" "0 \<le> v" "v < h_px c"
  shows "world_to_pixel c p = Some (u, v)"
  using assms(2-) unfolding world_to_pixel_def Let_def assms(1)
  by (simp add: vec_defs)

lemma tiny_focal_camera_fields:
  "f_px tiny_focal_camera = 1 / 10 ^ 10" "w_px tiny_focal_camera = 2" "h_px tiny_focal_camera = 2"
  "cx tiny_focal_camera = 1" "cy tiny_focal_camera = 1"
  "camera_pos_world tiny_focal_camera = (0, 0, 0)"
  "R_cam_to_world tiny_focal_camera = ((- 1, 0, 0), (0, - 1, 0), (0, 0, 1))"
  by (simp_all add: tiny_focal_camera_def tiny_focal_params_def camera_init_def
      create_rotation_matrix_def deg2rad_def Rx_def Ry_def Rz_def R_base_def mat_defs vec_defs Let_def)

lemma tiny_focal_ray: "pixel_to_ray tiny_focal_camera (1, 1) = ((0, 0, 0), (0, 0, - 1))"
proof -
  have "mat_vec (R_cam_to_world tiny_focal_camera) (0, 0, 1 / 10 ^ 10) = (0, 0, 1 / 10 ^ 10)"
    by (simp add: tiny_focal_camera_fields mat_defs vec_defs)
  then show ?thesis
    by (simp add: pixel_to_ray_def tiny_focal_camera_fields(1-6) Let_def norm_z_axis)
qed

lemma negative_focal_camera_fields:
  "f_px negative_focal_camera = - 1" "w_px negative_focal_camera = 2"
  "h_px negative_focal_camera = 2" "cx negative_focal_camera = 1" "cy negative_focal_camera = 1"
  "camera_pos_world negative_focal_camera = (0, 0, 0)"
  "R_cam_to_world negative_focal_camera = ((1, 0, 0), (0, - 1, 0), (0, 0, - 1))"
  by (simp_all add: negative_focal_camera_def negative_focal_params_def camera_init_def
      create_rotation_matrix_def deg2rad_def Rx_def Ry_def Rz_def R_base_def mat_defs vec_defs Let_def)

lemma negative_focal_ray: "pixel_to_ray negative_focal_camera (1, 1) = ((0, 0, 0), (0, 0, 1))"
proof -
  have "mat_vec (R_cam_to_world negative_focal_camera) (0, 0, - 1) = (0, 0, 1)"
    by (simp add: negative_focal_camera_fields mat_defs vec_defs)
  then show ?thesis
    by (simp add: pixel_to_ray_def negative_focal_camera_fields(1-6) Let_def norm_z_axis)
      (simp add: vec_defs)
qed

text \<open>
  C7, as the code has it. For a positive focal length, a pixel strictly inside the sensor
  bounds (\<open>0 < u < width\<close> and \<open>0 < v < height\<close>) whose camera-local vector has a norm
  of at least \<open>1e-9\<close>, and any \<open>t > 0\<close>, the point at parameter \<open>t\<close> on the pixel's ray
  projects back to the pixel.
\<close>

theorem pixel_ray_round_trip:
  assumes "0 < focal_length_px ps"
    and "1 / 10 ^ 9 \<le> linalg_norm (u - cx (camera_init ps), cy (camera_init ps) - v, f_px (camera_init ps))"
    and "0 < u" "u < w_px (camera_init ps)" "0 < v" "v < h_px (camera_init ps)"
    and "0 < t"
  shows "world_to_pixel (camera_init ps)
           (vadd (fst (pixel_to_ray (camera_init ps) (u, v)))
                 (vscale (snd (pixel_to_ray (camera_init ps) (u, v))) t)) = Some (u, v)"
proof -
  let ?c = "camera_init ps"
  let ?R = "R_cam_to_world ?c"
  let ?vec = "(u - cx ?c, cy ?c - v, f_px ?c)"
  let ?n = "linalg_norm (mat_vec ?R ?vec)"
  have R: "?R = create_rotation_matrix (roll ?c) (pitch ?c) (yaw ?c)"
    by (simp add: camera_init_def Let_def)
  have f: "0 < f_px ?c"
    using assms(1) by (simp add: camera_init_def Let_def)
  have n_eq: "?n = linalg_norm ?vec"
    unfolding R by (rule rotation_norm)
  with assms(2) have big: "\<not> ?n < 1 / 10 ^ 9" and n: "0 < ?n"
    by simp_all
  have ray: "pixel_to_ray ?c (u, v) = (camera_pos_world ?c, vdiv (mat_vec ?R ?vec) ?n)"
    using big by (simp add: pixel_to_ray_def Let_def)
  have "mat_vec (mat_T ?R) (vscale (vdiv (mat_vec ?R ?vec) ?n) t) = vscale (vdiv ?vec ?n) t"
    unfolding mat_vec_scaled R by (simp add: rotation_orth)
  then have P_cam: "mat_vec (mat_T ?R)
        (vsub (vadd (camera_pos_world ?c) (vscale (vdiv (mat_vec ?R ?vec) ?n) t)) (camera_pos_world ?c))
        = ((u - cx ?c) / ?n * t, (cy ?c - v) / ?n * t, f_px ?c / ?n * t)"
    by (simp add: vsub_vadd) (simp add: vec_defs)
  have z: "0 < f_px ?c / ?n * t"
    using f n assms(7) by simp
  have pu: "f_px ?c * (((u - cx ?c) / ?n * t) / (f_px ?c / ?n * t)) + cx ?c = u"
    using project_scaled [OF f n assms(7), of "u - cx ?c"] by simp
  have pv: "cy ?c - f_px ?c * (((cy ?c - v) / ?n * t) / (f_px ?c / ?n * t)) = v"
    using project_scaled [OF f n assms(7), of "cy ?c - v"] by simp
  show ?thesis
    unfolding ray fst_conv snd_conv
    by (rule project_from_camera_frame
        [OF P_cam z pu pv less_imp_le [OF assms(3)] assms(4) less_imp_le [OF assms(5)] assms(6)])
qed

theorem pixel_ray_round_trip_witness:
  "0 < focal_length_px down_params
   \<and> 1 / 10 ^ 9 \<le> linalg_norm (4 - cx down_camera, cy down_camera - 4, f_px down_camera)
   \<and> (0::real) < 4 \<and> 4 < w_px down_camera \<and> 4 < h_px down_camera \<and> 0 < (9::real)
   \<and> pixel_to_ray down_camera (4, 4) = ((0, 0, 3), (2 / 3, 2 / 3, - 1 / 3))
   \<and> world_to_pixel down_camera (6, 6, 0) = Some (4, 4)"
proof -
  have h1: "0 < focal_length_px down_params"
    by (simp add: down_params_def)
  have h2: "1 / 10 ^ 9 \<le> linalg_norm (4 - cx (camera_init down_params),
      cy (camera_init down_params) - 4, f_px (camera_init down_params))"
    by (simp add: down_camera_fields [unfolded down_camera_def] linalg_norm_def vec_defs sqrt_9)
  have h3: "(0::real) < 4" "4 < w_px (camera_init down_params)" "4 < h_px (camera_init down_params)"
    "0 < (9::real)"
    by (simp_all add: down_camera_fields [unfolded down_camera_def])
  from pixel_ray_round_trip [OF h1 h2 h3(1,2,1,3,4)]
  have "world_to_pixel down_camera (6, 6, 0) = Some (4, 4)"
    by (simp add: down_camera_def [symmetric] down_camera_rays vec_defs)
  with h1 h2 h3 show ?thesis
    by (simp add: down_camera_def [symmetric] down_camera_rays)
qed

text \<open>
  C7, as stated, fails where \<open>pixel_to_ray\<close> replaces a direction of norm below \<open>1e-9\<close>
  by \<open>(0, 0, -1)\<close>: with a focal length of \<open>1e-10\<close> and a pitch of 180 degrees the ray of
  the principal point is the downward default, which lies behind this camera, and the
  projection of the point on it is \<open>None\<close>. A negative focal length, whose forward
  component is not zero either, puts every ray behind the camera.
\<close>

theorem round_trip_counterexample:
  "0 < f_px tiny_focal_camera
   \<and> 0 < (1::real) \<and> 1 < w_px tiny_focal_camera \<and> 1 < h_px tiny_focal_camera
   \<and> vz (mat_vec (mat_T (R_cam_to_world tiny_focal_camera))
            (snd (pixel_to_ray tiny_focal_camera (1, 1)))) = - 1
   \<and> world_to_pixel tiny_focal_camera
        (vadd (fst (pixel_to_ray tiny_focal_camera (1, 1)))
              (vscale (snd (pixel_to_ray tiny_focal_camera (1, 1))) 1)) = None
   \<and> f_px negative_focal_camera = - 1
   \<and> 1 < w_px negative_focal_camera \<and> 1 < h_px negative_focal_camera
   \<and> world_to_pixel negative_focal_camera
        (vadd (fst (pixel_to_ray negative_focal_camera (1, 1)))
              (vscale (snd (pixel_to_ray negative_focal_camera (1, 1))) 1)) = None"
  by (simp add: tiny_focal_ray negative_focal_ray world_to_pixel_def tiny_focal_camera_fields
      negative_focal_camera_fields mat_defs vec_defs)

end
